theory Spec2Isabelle
  imports Main "HOL-Library.Word"
begin

section \<open>C scalar types\<close>

text \<open>
  The two headers declare data and entry points; the scalars they use are fixed-width.
  A \<open>float\<close> is kept as its IEEE-754 binary32 bit pattern and a \<open>double\<close> as its
  binary64 bit pattern: the headers only store and pass these values, they never compute
  with them. Signed and unsigned integers of one width share the word type of that width
  (\<open>sint\<close> and \<open>unat\<close> read them).
\<close>

type_synonym c_float = "32 word"
type_synonym c_double = "64 word"
type_synonym c_int = "32 word"
type_synonym c_uint = "32 word"
type_synonym int32_t = "32 word"
type_synonym uint32_t = "32 word"
type_synonym int64_t = "64 word"
type_synonym uint64_t = "64 word"

section \<open>alvr/client_core/cpp/bindings.h: the structs\<close>

text \<open>
  \<^verbatim>\<open>float orientation[4]\<close> and \<^verbatim>\<open>float position[3]\<close> are arrays of a fixed length,
  so they are tuples of that many components.
\<close>

record EyeInput =
  orientation :: "c_float \<times> c_float \<times> c_float \<times> c_float"
  position :: "c_float \<times> c_float \<times> c_float"
  fovLeft :: c_float
  fovRight :: c_float
  fovTop :: c_float
  fovBottom :: c_float

record OnCreateResult =
  streamSurfaceHandle :: c_int
  loadingSurfaceHandle :: c_int

record StreamConfigInput =
  viewWidth :: c_uint
  viewHeight :: c_uint
  enableFoveation :: bool
  foveationCenterSizeX :: c_float
  foveationCenterSizeY :: c_float
  foveationCenterShiftX :: c_float
  foveationCenterShiftY :: c_float
  foveationEdgeRatioX :: c_float
  foveationEdgeRatioY :: c_float

section \<open>The entities of the specification that the structs are compared with\<close>

text \<open>
  The negotiation wire message, in the specification's words:
  \<open>{viewWidth, viewHeight, foveationEnabled, centerSizeX/Y, centerShiftX/Y, edgeRatioX/Y}\<close>.
  The specification fixes no representation for a dimension or a ratio, so the two are
  type parameters: \<open>'n\<close> for the pixel counts and \<open>'r\<close> for the ratios.
\<close>

record ('n, 'r) NegotiationMessage =
  msg_viewWidth :: 'n
  msg_viewHeight :: 'n
  msg_foveationEnabled :: bool
  msg_centerSizeX :: 'r
  msg_centerSizeY :: 'r
  msg_centerShiftX :: 'r
  msg_centerShiftY :: 'r
  msg_edgeRatioX :: 'r
  msg_edgeRatioY :: 'r

text \<open>Reading a \<open>StreamConfigInput\<close> as a wire message, field by field, and back.\<close>

definition to_message :: "StreamConfigInput \<Rightarrow> (c_uint, c_float) NegotiationMessage" where
  "to_message c =
     \<lparr>msg_viewWidth = viewWidth c, msg_viewHeight = viewHeight c,
      msg_foveationEnabled = enableFoveation c,
      msg_centerSizeX = foveationCenterSizeX c, msg_centerSizeY = foveationCenterSizeY c,
      msg_centerShiftX = foveationCenterShiftX c, msg_centerShiftY = foveationCenterShiftY c,
      msg_edgeRatioX = foveationEdgeRatioX c, msg_edgeRatioY = foveationEdgeRatioY c\<rparr>"

definition of_message :: "(c_uint, c_float) NegotiationMessage \<Rightarrow> StreamConfigInput" where
  "of_message m =
     \<lparr>viewWidth = msg_viewWidth m, viewHeight = msg_viewHeight m,
      enableFoveation = msg_foveationEnabled m,
      foveationCenterSizeX = msg_centerSizeX m, foveationCenterSizeY = msg_centerSizeY m,
      foveationCenterShiftX = msg_centerShiftX m, foveationCenterShiftY = msg_centerShiftY m,
      foveationEdgeRatioX = msg_edgeRatioX m, foveationEdgeRatioY = msg_edgeRatioY m\<rparr>"

text \<open>
  The Pose entity, in the specification's words: an orientation of 4 floats, a position
  of 3 floats, the field of view as left, right, top and bottom angles, and a timestamp.
  The timestamp's representation is not fixed by the specification: it is the type
  parameter \<open>'t\<close>.
\<close>

record 't Pose =
  pose_orientation :: "c_float \<times> c_float \<times> c_float \<times> c_float"
  pose_position :: "c_float \<times> c_float \<times> c_float"
  pose_fovLeft :: c_float
  pose_fovRight :: c_float
  pose_fovTop :: c_float
  pose_fovBottom :: c_float
  pose_timestamp :: 't

text \<open>
  What of a Pose an \<open>EyeInput\<close> can hold: each component goes to the field of the
  struct that has its name and type.
\<close>

definition eye_input_of_pose :: "'t Pose \<Rightarrow> EyeInput" where
  "eye_input_of_pose p =
     \<lparr>orientation = pose_orientation p, position = pose_position p,
      fovLeft = pose_fovLeft p, fovRight = pose_fovRight p,
      fovTop = pose_fovTop p, fovBottom = pose_fovBottom p\<rparr>"

definition pose_of_eye_input :: "EyeInput \<Rightarrow> 't \<Rightarrow> 't Pose" where
  "pose_of_eye_input e t =
     \<lparr>pose_orientation = orientation e, pose_position = position e,
      pose_fovLeft = fovLeft e, pose_fovRight = fovRight e,
      pose_fovTop = fovTop e, pose_fovBottom = fovBottom e, pose_timestamp = t\<rparr>"

text \<open>Two poses that differ in nothing but the time at which they were sampled.\<close>

definition pose_at :: "nat \<Rightarrow> nat Pose" where
  "pose_at t =
     \<lparr>pose_orientation = (0, 0, 0, 0x3F800000), pose_position = (0, 0, 0),
      pose_fovLeft = 0xBF490FDB, pose_fovRight = 0x3F490FDB,
      pose_fovTop = 0x3F490FDB, pose_fovBottom = 0xBF490FDB, pose_timestamp = t\<rparr>"

section \<open>alvr/client_core/cpp/bindings.h: the entry points of graphics.h\<close>

text \<open>
  The entry points are declared \<^verbatim>\<open>extern "C"\<close> and defined elsewhere. A declaration
  is data: a name, a return type and the parameters as they are written.
\<close>

datatype ctype =
    CVoid
  | CInt
  | CUChar
  | CStruct string
  | CConst ctype
  | CPtr ctype
  | CArr ctype nat

record cfun =
  fun_name :: string
  fun_ret :: ctype
  fun_params :: "(ctype \<times> string) list"

definition initGraphicsNative :: cfun where
  "initGraphicsNative = \<lparr>fun_name = ''initGraphicsNative'', fun_ret = CVoid, fun_params = []\<rparr>"

definition destroyGraphicsNative :: cfun where
  "destroyGraphicsNative =
     \<lparr>fun_name = ''destroyGraphicsNative'', fun_ret = CVoid, fun_params = []\<rparr>"

definition prepareLobbyRoom :: cfun where
  "prepareLobbyRoom =
     \<lparr>fun_name = ''prepareLobbyRoom'', fun_ret = CVoid,
      fun_params = [(CInt, ''viewWidth''), (CInt, ''viewHeight''),
                    (CArr (CPtr (CConst CInt)) 2, ''swapchainTextures''),
                    (CInt, ''swapchainLength'')]\<rparr>"

definition destroyRenderers :: cfun where
  "destroyRenderers = \<lparr>fun_name = ''destroyRenderers'', fun_ret = CVoid, fun_params = []\<rparr>"

definition setStreamConfig :: cfun where
  "setStreamConfig =
     \<lparr>fun_name = ''setStreamConfig'', fun_ret = CVoid,
      fun_params = [(CStruct ''StreamConfigInput'', ''config'')]\<rparr>"

definition streamStartNative :: cfun where
  "streamStartNative =
     \<lparr>fun_name = ''streamStartNative'', fun_ret = CVoid,
      fun_params = [(CArr (CPtr (CConst CInt)) 2, ''swapchainTextures''),
                    (CInt, ''swapchainLength'')]\<rparr>"

definition updateLobbyHudTexture :: cfun where
  "updateLobbyHudTexture =
     \<lparr>fun_name = ''updateLobbyHudTexture'', fun_ret = CVoid,
      fun_params = [(CPtr (CConst CUChar), ''data'')]\<rparr>"

definition renderLobbyNative :: cfun where
  "renderLobbyNative =
     \<lparr>fun_name = ''renderLobbyNative'', fun_ret = CVoid,
      fun_params = [(CArr (CConst (CStruct ''EyeInput'')) 2, ''eyeInputs''),
                    (CArr (CConst CInt) 2, ''swapchainIndices'')]\<rparr>"

definition renderStreamNative :: cfun where
  "renderStreamNative =
     \<lparr>fun_name = ''renderStreamNative'', fun_ret = CVoid,
      fun_params = [(CPtr CVoid, ''streamHardwareBuffer''),
                    (CArr (CConst CInt) 2, ''swapchainIndices'')]\<rparr>"

definition graphics_h :: "cfun list" where
  "graphics_h =
     [initGraphicsNative, destroyGraphicsNative, prepareLobbyRoom, destroyRenderers,
      setStreamConfig, streamStartNative, updateLobbyHudTexture, renderLobbyNative,
      renderStreamNative]"

text \<open>
  The shapes that the specification gives to the render backend:
  \<open>beginFrame(eyePoses[2]) -> textureHandles[2]\<close>,
  \<open>presentLobby(eyePoses[2], swapchainIndices[2])\<close> and
  \<open>presentStream(decodedBuffer, swapchainIndices[2])\<close>. An eye pose is an
  \<open>EyeInput\<close>, a swapchain index an \<open>int\<close>, the decoded buffer an untyped pointer.
  For \<open>beginFrame\<close> any return type but \<open>void\<close> is taken as the texture handles.
\<close>

definition eye_poses2 :: ctype where
  "eye_poses2 = CArr (CConst (CStruct ''EyeInput'')) 2"

definition swapchain_indices2 :: ctype where
  "swapchain_indices2 = CArr (CConst CInt) 2"

definition decoded_buffer :: ctype where
  "decoded_buffer = CPtr CVoid"

definition swapchain_textures2 :: ctype where
  "swapchain_textures2 = CArr (CPtr (CConst CInt)) 2"

definition param_types :: "cfun \<Rightarrow> ctype list" where
  "param_types f = map fst (fun_params f)"

definition returns_value :: "cfun \<Rightarrow> bool" where
  "returns_value f \<longleftrightarrow> fun_ret f \<noteq> CVoid"

definition beginFrame_shape :: "cfun \<Rightarrow> bool" where
  "beginFrame_shape f \<longleftrightarrow> param_types f = [eye_poses2] \<and> returns_value f"

definition presentLobby_shape :: "cfun \<Rightarrow> bool" where
  "presentLobby_shape f \<longleftrightarrow> param_types f = [eye_poses2, swapchain_indices2]"

definition presentStream_shape :: "cfun \<Rightarrow> bool" where
  "presentStream_shape f \<longleftrightarrow> param_types f = [decoded_buffer, swapchain_indices2]"

definition takes_swapchain_textures :: "cfun \<Rightarrow> bool" where
  "takes_swapchain_textures f \<longleftrightarrow> swapchain_textures2 \<in> set (param_types f)"

section \<open>alvr/server/cpp/alvr_server/Settings.h: the data members\<close>

text \<open>
  Every non-static data member of \<^verbatim>\<open>class Settings\<close>, in the order of the header.
  \<^verbatim>\<open>EyeFov\<close> comes from \<^verbatim>\<open>ALVR-common/packet_types.h\<close>, which is not part of the
  sources at hand: it is the type parameter \<open>'eyefov\<close>. \<^verbatim>\<open>std::string\<close> is
  \<open>string\<close>; arrays of a fixed length are tuples.
\<close>

record 'eyefov Settings =
  m_loaded :: bool
  m_universeId :: uint64_t
  mSerialNumber :: string
  mTrackingSystemName :: string
  mModelNumber :: string
  mDriverVersion :: string
  mManufacturerName :: string
  mRenderModelName :: string
  mRegisteredDeviceType :: string
  m_nAdapterIndex :: int32_t
  m_DriverTestMode :: uint64_t
  m_refreshRate :: c_int
  m_renderWidth :: uint32_t
  m_renderHeight :: uint32_t
  m_recommendedTargetWidth :: int32_t
  m_recommendedTargetHeight :: int32_t
  m_eyeFov :: "'eyefov \<times> 'eyefov"
  m_flSecondsFromVsyncToPhotons :: c_float
  m_flIPD :: c_float
  m_enableFoveatedRendering :: bool
  m_foveationCenterSizeX :: c_float
  m_foveationCenterSizeY :: c_float
  m_foveationCenterShiftX :: c_float
  m_foveationCenterShiftY :: c_float
  m_foveationEdgeRatioX :: c_float
  m_foveationEdgeRatioY :: c_float
  m_enableColorCorrection :: bool
  m_brightness :: c_float
  m_contrast :: c_float
  m_saturation :: c_float
  m_gamma :: c_float
  m_sharpening :: c_float
  m_codec :: c_int
  mEncodeBitrateMBs :: uint64_t
  m_enableAdaptiveBitrate :: bool
  m_adaptiveBitrateMaximum :: uint64_t
  m_adaptiveBitrateTarget :: uint64_t
  m_adaptiveBitrateUseFrametime :: bool
  m_adaptiveBitrateTargetMaximum :: uint64_t
  m_adaptiveBitrateTargetOffset :: int32_t
  m_adaptiveBitrateThreshold :: uint64_t
  m_adaptiveBitrateUpRate :: uint64_t
  m_adaptiveBitrateDownRate :: uint64_t
  m_adaptiveBitrateLightLoadThreshold :: c_float
  m_use10bitEncoder :: bool
  m_usePreproc :: bool
  m_preProcSigma :: uint32_t
  m_preProcTor :: uint32_t
  m_encoderQualityPreset :: uint32_t
  m_rateControlMode :: uint32_t
  m_entropyCoding :: uint32_t
  m_force_sw_encoding :: bool
  m_swThreadCount :: uint32_t
  m_controllerTrackingSystemName :: string
  m_controllerManufacturerName :: string
  m_controllerModelNumber :: string
  m_controllerRenderModelNameLeft :: string
  m_controllerRenderModelNameRight :: string
  m_controllerSerialNumber :: string
  m_controllerTypeLeft :: string
  m_controllerTypeRight :: string
  mControllerRegisteredDeviceType :: string
  m_controllerInputProfilePath :: string
  m_disableController :: bool
  m_linearVelocityCutoff :: c_float
  m_angularVelocityCutoff :: c_float
  m_OffsetPos :: "c_float \<times> c_float \<times> c_float"
  m_EnableOffsetPos :: bool
  m_leftControllerPositionOffset :: "c_double \<times> c_double \<times> c_double"
  m_leftControllerRotationOffset :: "c_double \<times> c_double \<times> c_double"
  m_overrideTriggerThreshold :: bool
  m_triggerThreshold :: c_float
  m_overrideGripThreshold :: bool
  m_gripThreshold :: c_float
  m_hapticsIntensity :: c_float
  m_hapticsAmplitudeCurve :: c_float
  m_hapticsMinDuration :: c_float
  m_hapticsLowDurationAmplitudeMultiplier :: c_float
  m_hapticsLowDurationRange :: c_float
  m_causePacketLoss :: int32_t
  m_trackingFrameOffset :: int32_t
  m_force3DOF :: bool
  m_aggressiveKeyframeResend :: bool
  m_captureLayerDDSTrigger :: bool
  m_captureComposedDDSTrigger :: bool
  m_controllerMode :: c_int
  m_TrackingRefOnly :: bool
  m_enableViveTrackerProxy :: bool
  m_useHeadsetTrackingSystem :: bool
  m_videoPacketSize :: int32_t
  m_enableLinuxVulkanAsync :: bool
  m_nvencTuningPreset :: uint32_t
  m_nvencMultiPass :: uint32_t
  m_nvencAdaptiveQuantizationMode :: uint32_t
  m_nvencLowDelayKeyFrameScale :: int64_t
  m_nvencRefreshRate :: int64_t
  m_nvencEnableIntraRefresh :: bool
  m_nvencIntraRefreshPeriod :: int64_t
  m_nvencIntraRefreshCount :: int64_t
  m_nvencMaxNumRefFrames :: int64_t
  m_nvencGopLength :: int64_t
  m_nvencPFrameStrategy :: int64_t
  m_nvencRateControlMode :: int64_t
  m_nvencRcBufferSize :: int64_t
  m_nvencRcInitialDelay :: int64_t
  m_nvencRcMaxBitrate :: int64_t
  m_nvencRcAverageBitrate :: int64_t
  m_nvencEnableWeightedPrediction :: bool
  m_captureFrameDir :: string

text \<open>
  An object whose members are all zero, as static storage is before the constructor
  runs. The constructor and \<^verbatim>\<open>Load\<close> are defined outside the header.
\<close>

definition zero_Settings :: "unit Settings" where
  "zero_Settings =
     \<lparr>m_loaded = False, m_universeId = 0, mSerialNumber = '''',
      mTrackingSystemName = '''', mModelNumber = '''', mDriverVersion = '''',
      mManufacturerName = '''', mRenderModelName = '''', mRegisteredDeviceType = '''',
      m_nAdapterIndex = 0, m_DriverTestMode = 0, m_refreshRate = 0, m_renderWidth = 0,
      m_renderHeight = 0, m_recommendedTargetWidth = 0, m_recommendedTargetHeight = 0,
      m_eyeFov = ((), ()), m_flSecondsFromVsyncToPhotons = 0, m_flIPD = 0,
      m_enableFoveatedRendering = False, m_foveationCenterSizeX = 0,
      m_foveationCenterSizeY = 0, m_foveationCenterShiftX = 0, m_foveationCenterShiftY = 0,
      m_foveationEdgeRatioX = 0, m_foveationEdgeRatioY = 0, m_enableColorCorrection = False,
      m_brightness = 0, m_contrast = 0, m_saturation = 0, m_gamma = 0, m_sharpening = 0,
      m_codec = 0, mEncodeBitrateMBs = 0, m_enableAdaptiveBitrate = False,
      m_adaptiveBitrateMaximum = 0, m_adaptiveBitrateTarget = 0,
      m_adaptiveBitrateUseFrametime = False, m_adaptiveBitrateTargetMaximum = 0,
      m_adaptiveBitrateTargetOffset = 0, m_adaptiveBitrateThreshold = 0,
      m_adaptiveBitrateUpRate = 0, m_adaptiveBitrateDownRate = 0,
      m_adaptiveBitrateLightLoadThreshold = 0, m_use10bitEncoder = False, m_usePreproc = False,
      m_preProcSigma = 0, m_preProcTor = 0, m_encoderQualityPreset = 0, m_rateControlMode = 0,
      m_entropyCoding = 0, m_force_sw_encoding = False, m_swThreadCount = 0,
      m_controllerTrackingSystemName = '''', m_controllerManufacturerName = '''',
      m_controllerModelNumber = '''', m_controllerRenderModelNameLeft = '''',
      m_controllerRenderModelNameRight = '''', m_controllerSerialNumber = '''',
      m_controllerTypeLeft = '''', m_controllerTypeRight = '''',
      mControllerRegisteredDeviceType = '''', m_controllerInputProfilePath = '''',
      m_disableController = False, m_linearVelocityCutoff = 0, m_angularVelocityCutoff = 0,
      m_OffsetPos = (0, 0, 0), m_EnableOffsetPos = False,
      m_leftControllerPositionOffset = (0, 0, 0), m_leftControllerRotationOffset = (0, 0, 0),
      m_overrideTriggerThreshold = False, m_triggerThreshold = 0,
      m_overrideGripThreshold = False, m_gripThreshold = 0, m_hapticsIntensity = 0,
      m_hapticsAmplitudeCurve = 0, m_hapticsMinDuration = 0,
      m_hapticsLowDurationAmplitudeMultiplier = 0, m_hapticsLowDurationRange = 0,
      m_causePacketLoss = 0, m_trackingFrameOffset = 0, m_force3DOF = False,
      m_aggressiveKeyframeResend = False, m_captureLayerDDSTrigger = False,
      m_captureComposedDDSTrigger = False, m_controllerMode = 0, m_TrackingRefOnly = False,
      m_enableViveTrackerProxy = False, m_useHeadsetTrackingSystem = False,
      m_videoPacketSize = 0, m_enableLinuxVulkanAsync = False, m_nvencTuningPreset = 0,
      m_nvencMultiPass = 0, m_nvencAdaptiveQuantizationMode = 0,
      m_nvencLowDelayKeyFrameScale = 0, m_nvencRefreshRate = 0,
      m_nvencEnableIntraRefresh = False, m_nvencIntraRefreshPeriod = 0,
      m_nvencIntraRefreshCount = 0, m_nvencMaxNumRefFrames = 0, m_nvencGopLength = 0,
      m_nvencPFrameStrategy = 0, m_nvencRateControlMode = 0, m_nvencRcBufferSize = 0,
      m_nvencRcInitialDelay = 0, m_nvencRcMaxBitrate = 0, m_nvencRcAverageBitrate = 0,
      m_nvencEnableWeightedPrediction = False, m_captureFrameDir = ''''\<rparr>"

section \<open>alvr/server/cpp/alvr_server/Settings.h: the class and its one instance\<close>

text \<open>
  The special member functions that the class declares, each with the access of the
  place where it is declared: \<^verbatim>\<open>Settings()\<close> and \<^verbatim>\<open>virtual ~Settings()\<close> stand before
  \<^verbatim>\<open>public:\<close>, in a \<^verbatim>\<open>class\<close>, so both are private. No copy constructor is declared.
\<close>

datatype access = Private | Public

datatype special_member = DefaultConstructor | CopyConstructor | Destructor

definition Settings_declared :: "(special_member \<times> access) list" where
  "Settings_declared = [(DefaultConstructor, Private), (Destructor, Private)]"

text \<open>
  Code outside the class may use a declared member only where it is public. A copy
  constructor that a class does not declare is declared implicitly, as a public member
  (C++ [class.copy.ctor], [class.access]).
\<close>

definition accessible_outside :: "special_member \<Rightarrow> bool" where
  "accessible_outside m =
     (case map_of Settings_declared m of Some a \<Rightarrow> a = Public | None \<Rightarrow> True)"

text \<open>
  The \<open>Settings\<close> objects of a process: the static \<^verbatim>\<open>m_Instance\<close>, and those that
  new-expressions have created.
\<close>

datatype settings_ref = Static_m_Instance | Allocated nat

record 'eyefov process =
  m_Instance :: "'eyefov Settings"
  allocated :: "'eyefov Settings list"

fun deref :: "'eyefov process \<Rightarrow> settings_ref \<Rightarrow> 'eyefov Settings option" where
  "deref p Static_m_Instance = Some (m_Instance p)"
| "deref p (Allocated i) = (if i < length (allocated p) then Some (allocated p ! i) else None)"

definition object_count :: "'eyefov process \<Rightarrow> nat" where
  "object_count p = 1 + length (allocated p)"

text \<open>
  \<^verbatim>\<open>static Settings &Instance() { return m_Instance; }\<close>: the reference returned, and
  the state of the process, which the call leaves as it is.
\<close>

definition Instance :: "'eyefov process \<Rightarrow> settings_ref \<times> 'eyefov process" where
  "Instance p = (Static_m_Instance, p)"

text \<open>\<^verbatim>\<open>bool IsLoaded() { return m_loaded; }\<close>\<close>

definition IsLoaded :: "'eyefov Settings \<Rightarrow> bool" where
  "IsLoaded this = m_loaded this"

text \<open>
  What code outside the class can do to the set of \<open>Settings\<close> objects. A step that
  needs a special member function that is not accessible does not compile: \<open>None\<close>.
  \<^item> \<open>New_default s\<close>: \<^verbatim>\<open>new Settings()\<close>, where \<open>s\<close> is what the constructor builds;
  \<^item> \<open>New_copy r\<close>: \<^verbatim>\<open>new Settings(r)\<close>, a copy of the object that \<open>r\<close> refers to;
  \<^item> \<open>Delete r\<close>: the end of the lifetime of the object that \<open>r\<close> refers to.
\<close>

datatype 'eyefov client_op =
    New_default "'eyefov Settings"
  | New_copy settings_ref
  | Delete settings_ref

fun client_step :: "'eyefov process \<Rightarrow> 'eyefov client_op \<Rightarrow> 'eyefov process option" where
  "client_step p (New_default s) =
     (if accessible_outside DefaultConstructor
      then Some (p\<lparr>allocated := allocated p @ [s]\<rparr>) else None)"
| "client_step p (New_copy r) =
     (if accessible_outside CopyConstructor
      then (case deref p r of
              Some s \<Rightarrow> Some (p\<lparr>allocated := allocated p @ [s]\<rparr>)
            | None \<Rightarrow> None)
      else None)"
| "client_step p (Delete r) =
     (if accessible_outside Destructor
      then (case r of
              Static_m_Instance \<Rightarrow> None
            | Allocated i \<Rightarrow>
                (if i < length (allocated p)
                 then Some (p\<lparr>allocated := take i (allocated p) @ drop (Suc i) (allocated p)\<rparr>)
                 else None))
      else None)"

definition process0 :: "unit process" where
  "process0 = \<lparr>m_Instance = zero_Settings, allocated = []\<rparr>"

text \<open>The tunables of the adaptive bitrate, as the configuration holds them.\<close>

definition adaptive_bitrate_tunables ::
  "'eyefov Settings \<Rightarrow> uint64_t \<times> uint64_t \<times> uint64_t \<times> c_float \<times> bool \<times> int32_t \<times> uint64_t" where
  "adaptive_bitrate_tunables s =
     (m_adaptiveBitrateMaximum s, m_adaptiveBitrateUpRate s, m_adaptiveBitrateDownRate s,
      m_adaptiveBitrateLightLoadThreshold s, m_adaptiveBitrateUseFrametime s,
      m_adaptiveBitrateTargetOffset s, m_adaptiveBitrateTargetMaximum s)"

section \<open>FrameScheduler: sequence numbers\<close>

text \<open>
  Modelled from the spec: an EncodedFrame (3) as far as its numbering goes: the session
  that it is tagged with, its sequence number, and the rest (payload size, encode
  timestamp, pose) as \<open>'p\<close>. The scheduler's code is not part of the sources at hand.
\<close>

record 'p EncodedFrame =
  frame_session :: nat
  sequenceNumber :: nat
  frame_content :: 'p

text \<open>
  Modelled from the spec: what the scheduler keeps for the numbering: the identifier of
  the active session and its "fresh monotonic counter" (4.4).
\<close>

record FrameScheduler =
  sessionId :: nat
  nextSequence :: nat

text \<open>
  Modelled from the spec: the two events that concern the numbering: a frame is handed
  to the network (4.3), the session is renegotiated (4.4).
\<close>

datatype 'p scheduler_event = Transmit 'p | Renegotiate

text \<open>
  Modelled from the spec: the floor value of a session's counter: a session starts "with
  sequence counter starting at 0" (8).
\<close>

definition session_floor :: nat where
  "session_floor = 0"

text \<open>Modelled from the spec: a fresh session, its counter at the floor (4.4).\<close>

definition new_session :: "nat \<Rightarrow> FrameScheduler" where
  "new_session sid = \<lparr>sessionId = sid, nextSequence = session_floor\<rparr>"

text \<open>
  Modelled from the spec: one event, and the frames that it hands to the network (4.3,
  4.4). A frame takes the counter's value and the counter moves on; a renegotiation
  ends the session and starts a fresh one under the next identifier.
\<close>

fun scheduler_step ::
  "FrameScheduler \<Rightarrow> 'p scheduler_event \<Rightarrow> FrameScheduler \<times> 'p EncodedFrame list" where
  "scheduler_step s (Transmit c) =
     (s\<lparr>nextSequence := Suc (nextSequence s)\<rparr>,
      [\<lparr>frame_session = sessionId s, sequenceNumber = nextSequence s, frame_content = c\<rparr>])"
| "scheduler_step s Renegotiate = (new_session (Suc (sessionId s)), [])"

text \<open>Modelled from the spec: the scheduler after a sequence of events.\<close>

fun run_scheduler :: "FrameScheduler \<Rightarrow> 'p scheduler_event list \<Rightarrow> FrameScheduler" where
  "run_scheduler s [] = s"
| "run_scheduler s (e # es) = run_scheduler (fst (scheduler_step s e)) es"

text \<open>Modelled from the spec: the frames handed to the network, in their order.\<close>

fun transmitted :: "FrameScheduler \<Rightarrow> 'p scheduler_event list \<Rightarrow> 'p EncodedFrame list" where
  "transmitted s [] = []"
| "transmitted s (e # es) =
     snd (scheduler_step s e) @ transmitted (fst (scheduler_step s e)) es"

text \<open>
  Modelled from the spec: the order between an earlier and a later frame (3, invariant):
  on the same session the later frame has the strictly greater sequence number.
\<close>

definition in_order :: "'p EncodedFrame \<Rightarrow> 'p EncodedFrame \<Rightarrow> bool" where
  "in_order f g \<longleftrightarrow>
     (frame_session f = frame_session g \<longrightarrow> sequenceNumber f < sequenceNumber g)"

text \<open>
  Modelled from the spec: what tells one frame from every other: its session identifier
  and its sequence number (4.4).
\<close>

definition frame_key :: "'p EncodedFrame \<Rightarrow> nat \<times> nat" where
  "frame_key f = (frame_session f, sequenceNumber f)"

section \<open>Properties of the client structs\<close>

text \<open>
  C1. The client-side \<open>StreamConfigInput\<close> is an exact analog of the negotiation wire
  message: reading it as a message and reading the message back are inverse to each
  other, so the struct consists of the view width, the view height, the foveation flag
  and the six per-axis foveation values (center size, center shift, edge ratio; x and y),
  and of nothing else.
\<close>

theorem StreamConfigInput_exact_analog:
  "of_message (to_message c) = c \<and> to_message (of_message m) = m
   \<and> msg_viewWidth (to_message c) = viewWidth c
   \<and> msg_viewHeight (to_message c) = viewHeight c
   \<and> msg_foveationEnabled (to_message c) = enableFoveation c
   \<and> msg_centerSizeX (to_message c) = foveationCenterSizeX c
   \<and> msg_centerSizeY (to_message c) = foveationCenterSizeY c
   \<and> msg_centerShiftX (to_message c) = foveationCenterShiftX c
   \<and> msg_centerShiftY (to_message c) = foveationCenterShiftY c
   \<and> msg_edgeRatioX (to_message c) = foveationEdgeRatioX c
   \<and> msg_edgeRatioY (to_message c) = foveationEdgeRatioY c"
  by (simp add: of_message_def to_message_def)

text \<open>
  C2, as stated, fails: the record that crosses the render interface is \<open>EyeInput\<close>,
  and it has no timestamp. Two poses sampled at different times arrive as the same
  \<open>EyeInput\<close>.
\<close>

theorem EyeInput_timestamp_counterexample:
  "eye_input_of_pose (pose_at 1) = eye_input_of_pose (pose_at 2)
   \<and> pose_timestamp (pose_at 1) \<noteq> pose_timestamp (pose_at 2)"
  by (simp add: eye_input_of_pose_def pose_at_def)

text \<open>
  C2, amended. The pose record passed across the render interface consists of the
  orientation (4 floats), the position (3 floats) and the four field-of-view angles
  (left, right, top, bottom): it is a Pose without its timestamp. Every \<open>EyeInput\<close> is
  the image of a Pose, whatever the timestamp, and a Pose is recovered from its
  \<open>EyeInput\<close> only together with its timestamp.
\<close>

theorem EyeInput_is_pose_without_timestamp:
  "eye_input_of_pose (pose_of_eye_input e t) = e
   \<and> pose_of_eye_input (eye_input_of_pose p) (pose_timestamp p) = p"
  by (simp add: eye_input_of_pose_def pose_of_eye_input_def)

section \<open>Properties of the render entry points\<close>

text \<open>
  C7, as stated, fails: no entry point of the boundary takes the two eye poses and
  returns texture handles. Every entry point returns \<open>void\<close>.
\<close>

theorem beginFrame_counterexample:
  "filter beginFrame_shape graphics_h = [] \<and> filter returns_value graphics_h = []"
  by (simp add: graphics_h_def beginFrame_shape_def returns_value_def param_types_def
      initGraphicsNative_def destroyGraphicsNative_def prepareLobbyRoom_def
      destroyRenderers_def setStreamConfig_def streamStartNative_def
      updateLobbyHudTexture_def renderLobbyNative_def renderStreamNative_def)

text \<open>
  C7, amended. The render-backend boundary has two render entry points of the stated
  shapes, and they are the only ones of these shapes: \<open>renderLobbyNative\<close> takes two eye
  poses and two swapchain indices, \<open>renderStreamNative\<close> takes a decoded buffer and two
  swapchain indices; both return nothing. Texture handles are not returned by any entry
  point: the caller passes the swapchain textures in, to \<open>prepareLobbyRoom\<close> and to
  \<open>streamStartNative\<close>.
\<close>

theorem render_entry_points:
  "filter presentLobby_shape graphics_h = [renderLobbyNative]
   \<and> filter presentStream_shape graphics_h = [renderStreamNative]
   \<and> fun_ret renderLobbyNative = CVoid \<and> fun_ret renderStreamNative = CVoid
   \<and> filter takes_swapchain_textures graphics_h = [prepareLobbyRoom, streamStartNative]"
  by (simp add: graphics_h_def presentLobby_shape_def presentStream_shape_def
      takes_swapchain_textures_def param_types_def
      eye_poses2_def swapchain_indices2_def decoded_buffer_def swapchain_textures2_def
      initGraphicsNative_def destroyGraphicsNative_def prepareLobbyRoom_def
      destroyRenderers_def setStreamConfig_def streamStartNative_def
      updateLobbyHudTexture_def renderLobbyNative_def renderStreamNative_def)

section \<open>Properties of the configuration\<close>

text \<open>
  C8. The configuration holds every tunable of the adaptive bitrate as a field of its
  own: the maximum, the up rate, the down rate, the light-load threshold, the
  use-frametime flag, the target offset and the target maximum. The seven can be set
  independently of each other, and each is read back as it was set.
\<close>

theorem adaptive_bitrate_fields_distinct:
  "adaptive_bitrate_tunables
     (s\<lparr>m_adaptiveBitrateMaximum := mx, m_adaptiveBitrateUpRate := up,
        m_adaptiveBitrateDownRate := dn, m_adaptiveBitrateLightLoadThreshold := ll,
        m_adaptiveBitrateUseFrametime := uf, m_adaptiveBitrateTargetOffset := off,
        m_adaptiveBitrateTargetMaximum := tm\<rparr>)
   = (mx, up, dn, ll, uf, off, tm)"
  by (simp add: adaptive_bitrate_tunables_def)

section \<open>Properties of the one instance\<close>

text \<open>
  C10, as stated, fails: the private constructor and destructor do not rule out a
  second \<open>Settings\<close> object. The class declares no copy constructor, so the implicit,
  public one lets code outside the class copy the object that \<open>Instance\<close> returns.
\<close>

theorem second_Settings_counterexample:
  "object_count process0 = 1
   \<and> map_option object_count
       (client_step process0 (New_copy (fst (Instance process0)))) = Some 2"
  by (simp add: object_count_def process0_def Instance_def accessible_outside_def
      Settings_declared_def)

text \<open>
  C10, amended. Every call to \<open>Instance\<close> returns a reference to one and the same
  object, the private static \<open>m_Instance\<close>, and changes nothing, so all components that
  go through \<open>Instance\<close> read the same configuration. The declared constructor and the
  destructor are private: code outside the class can neither construct a \<open>Settings\<close>
  from nothing nor destroy one.
\<close>

theorem Instance_same_object:
  "fst (Instance p) = Static_m_Instance \<and> snd (Instance p) = p
   \<and> fst (Instance p) = fst (Instance q)
   \<and> deref p (fst (Instance p)) = Some (m_Instance p)
   \<and> map_option IsLoaded (deref p (fst (Instance p))) = Some (m_loaded (m_Instance p))
   \<and> client_step p (New_default s) = None
   \<and> client_step p (Delete r) = None"
  by (simp add: Instance_def IsLoaded_def accessible_outside_def Settings_declared_def)

section \<open>Properties of the sequence numbers\<close>

text \<open>
  Every frame handed to the network after a state of the scheduler is of that state's
  session, numbered from its counter on, or of a later session.
\<close>

lemma transmitted_later:
  "f \<in> set (transmitted s es) \<Longrightarrow>
   (frame_session f = sessionId s \<and> nextSequence s \<le> sequenceNumber f)
   \<or> sessionId s < frame_session f"
proof (induction es arbitrary: s)
  case Nil
  then show ?case by simp
next
  case (Cons e es)
  show ?case
  proof (cases e)
    case (Transmit c)
    with Cons.prems have
      "f = \<lparr>frame_session = sessionId s, sequenceNumber = nextSequence s, frame_content = c\<rparr>
       \<or> f \<in> set (transmitted (s\<lparr>nextSequence := Suc (nextSequence s)\<rparr>) es)"
      by simp
    then show ?thesis
    proof
      assume "f = \<lparr>frame_session = sessionId s, sequenceNumber = nextSequence s,
        frame_content = c\<rparr>"
      then show ?thesis by simp
    next
      assume "f \<in> set (transmitted (s\<lparr>nextSequence := Suc (nextSequence s)\<rparr>) es)"
      from Cons.IH [OF this] show ?thesis by auto
    qed
  next
    case Renegotiate
    with Cons.prems have "f \<in> set (transmitted (new_session (Suc (sessionId s))) es)"
      by simp
    from Cons.IH [OF this] show ?thesis by (auto simp: new_session_def)
  qed
qed

lemma transmitted_in_order: "sorted_wrt in_order (transmitted s es)"
proof (induction es arbitrary: s)
  case Nil
  then show ?case by simp
next
  case (Cons e es)
  show ?case
  proof (cases e)
    case (Transmit c)
    have "in_order
        \<lparr>frame_session = sessionId s, sequenceNumber = nextSequence s, frame_content = c\<rparr> g"
      if "g \<in> set (transmitted (s\<lparr>nextSequence := Suc (nextSequence s)\<rparr>) es)" for g
      using transmitted_later [OF that] by (auto simp: in_order_def)
    then show ?thesis using Transmit Cons.IH by simp
  next
    case Renegotiate
    then show ?thesis using Cons.IH by simp
  qed
qed

lemma transmitted_keys_distinct: "distinct (map frame_key (transmitted s es))"
proof (induction es arbitrary: s)
  case Nil
  then show ?case by simp
next
  case (Cons e es)
  show ?case
  proof (cases e)
    case (Transmit c)
    have fresh: "frame_key g \<noteq> (sessionId s, nextSequence s)"
      if "g \<in> set (transmitted (s\<lparr>nextSequence := Suc (nextSequence s)\<rparr>) es)" for g
      using transmitted_later [OF that] by (auto simp: frame_key_def)
    have "(sessionId s, nextSequence s)
        \<notin> set (map frame_key (transmitted (s\<lparr>nextSequence := Suc (nextSequence s)\<rparr>) es))"
    proof
      assume "(sessionId s, nextSequence s)
        \<in> set (map frame_key (transmitted (s\<lparr>nextSequence := Suc (nextSequence s)\<rparr>) es))"
      then obtain g
        where "g \<in> set (transmitted (s\<lparr>nextSequence := Suc (nextSequence s)\<rparr>) es)"
          and "frame_key g = (sessionId s, nextSequence s)"
        by auto
      then show False using fresh by blast
    qed
    moreover have
      "distinct (map frame_key (transmitted (s\<lparr>nextSequence := Suc (nextSequence s)\<rparr>) es))"
      by (rule Cons.IH)
    moreover have
      "frame_key \<lparr>frame_session = sessionId s, sequenceNumber = nextSequence s,
         frame_content = c\<rparr> = (sessionId s, nextSequence s)"
      by (simp add: frame_key_def)
    ultimately show ?thesis using Transmit by simp
  next
    case Renegotiate
    then show ?thesis using Cons.IH by simp
  qed
qed

lemma transmitted_append:
  "transmitted s (es @ es') = transmitted s es @ transmitted (run_scheduler s es) es'"
  by (induction es arbitrary: s) simp_all

lemma transmitted_restart:
  "transmitted s (es @ [Renegotiate, Transmit c]) =
   transmitted s es @
     [\<lparr>frame_session = Suc (sessionId (run_scheduler s es)), sequenceNumber = session_floor,
       frame_content = c\<rparr>]"
  by (simp add: transmitted_append new_session_def)

text \<open>
  C4. Within one session every frame handed to the network carries a sequence number
  strictly greater than that of every frame handed over before it. After a
  renegotiation the next frame carries the floor value, under a new session identifier.
  No two frames carry the same pair of session identifier and sequence number: a
  number restarts with a session, and is never used twice under one identifier.
\<close>

theorem sequence_numbers_per_session:
  "sorted_wrt in_order (transmitted s es)
   \<and> distinct (map frame_key (transmitted s es))
   \<and> transmitted s (es @ [Renegotiate, Transmit c]) =
       transmitted s es @
         [\<lparr>frame_session = Suc (sessionId (run_scheduler s es)),
           sequenceNumber = session_floor, frame_content = c\<rparr>]"
  by (simp add: transmitted_in_order transmitted_keys_distinct transmitted_restart)

theorem sequence_numbers_per_session_witness:
  "transmitted (new_session 7) [Transmit ''a'', Transmit ''b'', Renegotiate, Transmit ''c''] =
     [\<lparr>frame_session = 7, sequenceNumber = 0, frame_content = ''a''\<rparr>,
      \<lparr>frame_session = 7, sequenceNumber = 1, frame_content = ''b''\<rparr>,
      \<lparr>frame_session = 8, sequenceNumber = 0, frame_content = ''c''\<rparr>]
   \<and> sorted_wrt in_order
       (transmitted (new_session 7) [Transmit ''a'', Transmit ''b'', Renegotiate, Transmit ''c''])
   \<and> in_order \<lparr>frame_session = 7, sequenceNumber = 0, frame_content = ''a''\<rparr>
       \<lparr>frame_session = 7, sequenceNumber = 1, frame_content = ''b''\<rparr>
   \<and> distinct (map frame_key
       (transmitted (new_session 7) [Transmit ''a'', Transmit ''b'', Renegotiate, Transmit ''c'']))"
  using sequence_numbers_per_session
    [of "new_session 7" "[Transmit ''a'', Transmit ''b'']" "''c''"]
  by (simp add: new_session_def session_floor_def in_order_def frame_key_def)

end
